theory Spec2Isabelle
  imports Complex_Main "HOL-Library.Product_Lexorder"
begin

section \<open>Conventions of the embedding\<close>

text \<open>
  The Python sources compute with binary floating-point numbers. They are embedded as
  \<^typ>\<open>real\<close>: the order of the operations is the source's, rounding error, infinities and
  NaN are not represented. Python integers are \<^typ>\<open>int\<close>. Every place where the
  source can raise is a branch of the model returning \<open>Inl\<close> of the exception.
\<close>

datatype py_error = ZeroDivisionError | IndexError | ValueError

section \<open>Position sizing (utils.py)\<close>

text \<open>
  Python's \<^verbatim>\<open>round(x, n)\<close> on a float rounds the exact value to \<open>n\<close> decimals, ties
  going to the even neighbour.
\<close>

definition round_half_even :: "real \<Rightarrow> int" where
  "round_half_even x =
     (let f = \<lfloor>x\<rfloor>; d = x - of_int f
      in if d < 1 / 2 then f else if 1 / 2 < d then f + 1 else if even f then f else f + 1)"

definition py_round :: "real \<Rightarrow> nat \<Rightarrow> real" where
  "py_round x ndigits = of_int (round_half_even (x * 10 ^ ndigits)) / 10 ^ ndigits"

text \<open>
  \<^verbatim>\<open>calculate_position_size(account_balance, risk_percent, entry, stop_loss, leverage)\<close>.
  The float division by \<open>entry\<close> raises \<^verbatim>\<open>ZeroDivisionError\<close> when \<open>entry\<close> is zero; it
  comes before the guard on \<open>price_diff_percent\<close>. \<open>leverage\<close> is accepted and unused.
\<close>

definition calculate_position_size ::
  "real \<Rightarrow> real \<Rightarrow> real \<Rightarrow> real \<Rightarrow> int \<Rightarrow> py_error + real" where
  "calculate_position_size account_balance risk_percent entry stop_loss leverage =
     (let risk_amount = account_balance * (risk_percent / 100)
      in if entry = 0 then Inl ZeroDivisionError
         else
           let price_diff_percent = \<bar>entry - stop_loss\<bar> / entry * 100
           in if price_diff_percent = 0 then Inr 0
              else
                let position_size = risk_amount / (price_diff_percent / 100)
                in Inr (py_round position_size 2))"

section \<open>Indicators (utils.py)\<close>

text \<open>
  \<^verbatim>\<open>calculate_atr\<close> and \<^verbatim>\<open>calculate_adx\<close> test the length of \<open>highs\<close> and return 0.0 on a
  short window; everything after the test is a computation inside the pandas library
  (DataFrame construction, \<^verbatim>\<open>shift\<close>, \<^verbatim>\<open>diff\<close>, \<^verbatim>\<open>ewm(...).mean()\<close>), which is not part of
  the repository. It is the parameter \<open>frame\<close> here: whatever pandas returns or raises on
  the three columns and the period.
\<close>

type_synonym pandas_frame = "real list \<Rightarrow> real list \<Rightarrow> real list \<Rightarrow> int \<Rightarrow> py_error + real"

definition calculate_atr ::
  "pandas_frame \<Rightarrow> real list \<Rightarrow> real list \<Rightarrow> real list \<Rightarrow> int \<Rightarrow> py_error + real" where
  "calculate_atr frame highs lows closes period =
     (if int (length highs) < period + 1 then Inr 0
      else frame highs lows closes period)"

definition calculate_adx ::
  "pandas_frame \<Rightarrow> real list \<Rightarrow> real list \<Rightarrow> real list \<Rightarrow> int \<Rightarrow> py_error + real" where
  "calculate_adx frame highs lows closes period =
     (if int (length highs) < period * 2 then Inr 0
      else frame highs lows closes period)"

definition is_ranging :: "real \<Rightarrow> real \<Rightarrow> bool" where
  "is_ranging adx_value threshold = (adx_value < threshold)"

section \<open>Layer detection (layers.py)\<close>

text \<open>The dataclass \<^verbatim>\<open>Layer\<close>.\<close>

record layer =
  price :: real
  layer_type :: string
  touches :: int
  strength :: int
  distance_pct :: real

text \<open>
  A cluster is the dict with the keys \<^verbatim>\<open>'price'\<close>, \<^verbatim>\<open>'touches'\<close> and \<^verbatim>\<open>'indices'\<close>
  (the field names carry a prefix, \<open>price\<close> and \<open>touches\<close> being fields of \<open>layer\<close>).
\<close>

record cluster =
  c_price :: real
  c_touches :: int
  c_indices :: "nat list"

text \<open>
  \<^verbatim>\<open>detect_swing_highs(highs, lookback)\<close>: the inner loop over \<open>j = 1..lookback\<close> leaves
  \<open>is_swing\<close> true iff no neighbour at distance \<open>j\<close> is at least as high. The outer range
  \<open>range(lookback, len(highs) - lookback)\<close> keeps every index read inside the list. The
  only caller passes the default \<open>lookback = 2\<close>; the parameter is a natural number here.
\<close>

definition is_swing_high :: "real list \<Rightarrow> nat \<Rightarrow> nat \<Rightarrow> bool" where
  "is_swing_high highs lookback i =
     list_all (\<lambda>j. \<not> (highs ! i \<le> highs ! (i - j) \<or> highs ! i \<le> highs ! (i + j)))
       [1 ..< Suc lookback]"

definition detect_swing_highs :: "real list \<Rightarrow> nat \<Rightarrow> (nat \<times> real) list" where
  "detect_swing_highs highs lookback =
     map (\<lambda>i. (i, highs ! i))
       (filter (is_swing_high highs lookback) [lookback ..< length highs - lookback])"

definition is_swing_low :: "real list \<Rightarrow> nat \<Rightarrow> nat \<Rightarrow> bool" where
  "is_swing_low lows lookback i =
     list_all (\<lambda>j. \<not> (lows ! i \<ge> lows ! (i - j) \<or> lows ! i \<ge> lows ! (i + j)))
       [1 ..< Suc lookback]"

definition detect_swing_lows :: "real list \<Rightarrow> nat \<Rightarrow> (nat \<times> real) list" where
  "detect_swing_lows lows lookback =
     map (\<lambda>i. (i, lows ! i))
       (filter (is_swing_low lows lookback) [lookback ..< length lows - lookback])"

text \<open>
  \<^verbatim>\<open>cluster_levels\<close>. The test of the inner loop divides by the price of the new point,
  which raises when that price is zero; the weighted average divides by the new touch
  count. \<open>merge_point\<close> is the inner \<^verbatim>\<open>for cluster in clusters\<close> with its \<^verbatim>\<open>break\<close>:
  \<open>Some\<close> of the updated list when a cluster matched (\<open>found\<close>), \<open>None\<close> otherwise.
\<close>

definition rel_distance :: "cluster \<Rightarrow> real \<Rightarrow> real" where
  "rel_distance c p = \<bar>c_price c - p\<bar> / p * 100"

definition absorb :: "cluster \<Rightarrow> nat \<Rightarrow> real \<Rightarrow> cluster" where
  "absorb c idx p =
     (let total_touches = c_touches c + 1
      in c\<lparr>c_price := (c_price c * of_int (c_touches c) + p) / of_int total_touches,
            c_touches := total_touches,
            c_indices := c_indices c @ [idx]\<rparr>)"

fun merge_point ::
  "cluster list \<Rightarrow> nat \<Rightarrow> real \<Rightarrow> real \<Rightarrow> py_error + cluster list option" where
  "merge_point [] idx p threshold_pct = Inr None"
| "merge_point (c # cs) idx p threshold_pct =
     (if p = 0 then Inl ZeroDivisionError
      else if rel_distance c p < threshold_pct then
        (if c_touches c + 1 = 0 then Inl ZeroDivisionError
         else Inr (Some (absorb c idx p # cs)))
      else
        (case merge_point cs idx p threshold_pct of
           Inl e \<Rightarrow> Inl e
         | Inr None \<Rightarrow> Inr None
         | Inr (Some cs') \<Rightarrow> Inr (Some (c # cs'))))"

definition new_cluster :: "nat \<Rightarrow> real \<Rightarrow> cluster" where
  "new_cluster idx p = \<lparr>c_price = p, c_touches = 1, c_indices = [idx]\<rparr>"

definition add_point ::
  "cluster list \<Rightarrow> nat \<times> real \<Rightarrow> real \<Rightarrow> py_error + cluster list" where
  "add_point clusters lv threshold_pct =
     (case lv of (idx, p) \<Rightarrow>
        (case merge_point clusters idx p threshold_pct of
           Inl e \<Rightarrow> Inl e
         | Inr (Some clusters') \<Rightarrow> Inr clusters'
         | Inr None \<Rightarrow> Inr (clusters @ [new_cluster idx p])))"

fun cluster_loop ::
  "cluster list \<Rightarrow> (nat \<times> real) list \<Rightarrow> real \<Rightarrow> py_error + cluster list" where
  "cluster_loop clusters [] threshold_pct = Inr clusters"
| "cluster_loop clusters (lv # levels) threshold_pct =
     (case add_point clusters lv threshold_pct of
        Inl e \<Rightarrow> Inl e
      | Inr clusters' \<Rightarrow> cluster_loop clusters' levels threshold_pct)"

definition cluster_levels :: "(nat \<times> real) list \<Rightarrow> real \<Rightarrow> py_error + cluster list" where
  "cluster_levels levels threshold_pct =
     (if levels = [] then Inr [] else cluster_loop [] levels threshold_pct)"

text \<open>
  \<^verbatim>\<open>calculate_layer_strength(cluster, total_bars, volumes)\<close>; \<open>volumes\<close> is \<open>None\<close> or a
  list, and \<^verbatim>\<open>if volumes\<close> is false for both \<open>None\<close> and the empty list. \<open>has_recent\<close> is
  the test of factor 2, \<open>volume_confirmed\<close> the nested tests of factor 3 (1.2 is the
  real 12/10).
\<close>

definition has_recent :: "cluster \<Rightarrow> int \<Rightarrow> bool" where
  "has_recent cl total_bars =
     (let recent_threshold = total_bars - 20
      in list_ex (\<lambda>idx. int idx \<ge> recent_threshold) (c_indices cl))"

definition volume_confirmed :: "cluster \<Rightarrow> real list option \<Rightarrow> bool" where
  "volume_confirmed cl volumes =
     (case volumes of
        None \<Rightarrow> False
      | Some vs \<Rightarrow>
          if vs \<noteq> [] \<and> c_indices cl \<noteq> [] then
            let avg_volume = sum_list vs / of_nat (length vs);
                touch_volumes = map (\<lambda>i. vs ! i) (filter (\<lambda>i. i < length vs) (c_indices cl))
            in if touch_volumes \<noteq> [] then
                 let avg_touch_volume = sum_list touch_volumes / of_nat (length touch_volumes)
                 in avg_touch_volume > avg_volume * (12 / 10)
               else False
          else False)"

definition calculate_layer_strength :: "cluster \<Rightarrow> int \<Rightarrow> real list option \<Rightarrow> int" where
  "calculate_layer_strength cl total_bars volumes =
     (let strength0 = 0;
          strength1 = (if c_touches cl \<ge> 2 then strength0 + 1 else strength0);
          strength2 = (if has_recent cl total_bars then strength1 + 1 else strength1);
          strength3 = (if volume_confirmed cl volumes then strength2 + 1 else strength2)
      in max 1 (min 3 strength3))"

text \<open>
  \<^verbatim>\<open>find_layers\<close>. \<^verbatim>\<open>closes[-1]\<close> raises on an empty list; the distance of a kept cluster
  divides by the current price. \<open>py_prefix\<close> is the slice \<^verbatim>\<open>xs[:n]\<close>, which drops from
  the end when \<open>n\<close> is negative. The sort is stable, as Python's is, on the key
  \<open>(-touches, distance_pct)\<close> compared lexicographically.
\<close>

fun resistance_of ::
  "cluster list \<Rightarrow> real \<Rightarrow> int \<Rightarrow> real list option \<Rightarrow> py_error + layer list" where
  "resistance_of [] current_price total_bars volumes = Inr []"
| "resistance_of (cl # cls) current_price total_bars volumes =
     (if c_price cl > current_price then
        (if current_price = 0 then Inl ZeroDivisionError
         else
           let strength = calculate_layer_strength cl total_bars volumes;
               distance = (c_price cl - current_price) / current_price * 100
           in (case resistance_of cls current_price total_bars volumes of
                 Inl e \<Rightarrow> Inl e
               | Inr ls \<Rightarrow>
                   Inr (\<lparr>price = c_price cl, layer_type = ''resistance'',
                         touches = c_touches cl, strength = strength,
                         distance_pct = distance\<rparr> # ls)))
      else resistance_of cls current_price total_bars volumes)"

fun support_of ::
  "cluster list \<Rightarrow> real \<Rightarrow> int \<Rightarrow> real list option \<Rightarrow> py_error + layer list" where
  "support_of [] current_price total_bars volumes = Inr []"
| "support_of (cl # cls) current_price total_bars volumes =
     (if c_price cl < current_price then
        (if current_price = 0 then Inl ZeroDivisionError
         else
           let strength = calculate_layer_strength cl total_bars volumes;
               distance = (current_price - c_price cl) / current_price * 100
           in (case support_of cls current_price total_bars volumes of
                 Inl e \<Rightarrow> Inl e
               | Inr ls \<Rightarrow>
                   Inr (\<lparr>price = c_price cl, layer_type = ''support'',
                         touches = c_touches cl, strength = strength,
                         distance_pct = distance\<rparr> # ls)))
      else support_of cls current_price total_bars volumes)"

definition py_prefix :: "'a list \<Rightarrow> int \<Rightarrow> 'a list" where
  "py_prefix xs n = (if 0 \<le> n then take (nat n) xs else take (length xs - nat (- n)) xs)"

definition sort_layers :: "layer list \<Rightarrow> layer list" where
  "sort_layers ls = sort_key (\<lambda>x. (- touches x, distance_pct x)) ls"

definition find_layers ::
  "real list \<Rightarrow> real list \<Rightarrow> real list \<Rightarrow> real list option \<Rightarrow> real \<Rightarrow> int
     \<Rightarrow> py_error + layer list \<times> layer list" where
  "find_layers highs lows closes volumes cluster_threshold max_layers =
     (if length highs < 10 then Inr ([], [])
      else if closes = [] then Inl IndexError
      else
        let current_price = last closes;
            total_bars = int (length closes);
            swing_highs = detect_swing_highs highs 2;
            swing_lows = detect_swing_lows lows 2
        in (case cluster_levels swing_highs cluster_threshold of
              Inl e \<Rightarrow> Inl e
            | Inr resistance_clusters \<Rightarrow>
          (case cluster_levels swing_lows cluster_threshold of
              Inl e \<Rightarrow> Inl e
            | Inr support_clusters \<Rightarrow>
          (case resistance_of resistance_clusters current_price total_bars volumes of
              Inl e \<Rightarrow> Inl e
            | Inr resistance_layers \<Rightarrow>
          (case support_of support_clusters current_price total_bars volumes of
              Inl e \<Rightarrow> Inl e
            | Inr support_layers \<Rightarrow>
                let half_max = max_layers div 2
                in Inr (py_prefix (sort_layers resistance_layers) half_max,
                        py_prefix (sort_layers support_layers) half_max))))))"

text \<open>
  \<^verbatim>\<open>find_nearest_layer\<close>. \<open>min_distance\<close> starts at \<^verbatim>\<open>float('inf')\<close>, which is \<open>None\<close>
  here: every real distance is below it.
\<close>

definition below_min :: "real \<Rightarrow> real option \<Rightarrow> bool" where
  "below_min d min_distance = (case min_distance of None \<Rightarrow> True | Some m \<Rightarrow> d < m)"

fun nearest_loop :: "layer list \<Rightarrow> real \<Rightarrow> layer option \<Rightarrow> real option \<Rightarrow> layer option" where
  "nearest_loop [] threshold_pct nearest min_distance = nearest"
| "nearest_loop (l # ls) threshold_pct nearest min_distance =
     (if below_min (distance_pct l) min_distance \<and> distance_pct l \<le> threshold_pct
      then nearest_loop ls threshold_pct (Some l) (Some (distance_pct l))
      else nearest_loop ls threshold_pct nearest min_distance)"

definition find_nearest_layer ::
  "real \<Rightarrow> layer list \<Rightarrow> layer list \<Rightarrow> real \<Rightarrow> layer option" where
  "find_nearest_layer current_price resistance_layers support_layers threshold_pct =
     (let all_layers = resistance_layers @ support_layers
      in nearest_loop all_layers threshold_pct None None)"

section \<open>Technical oracle response (grok.py)\<close>

text \<open>
  The response text is a string of ASCII characters here, so that \<^verbatim>\<open>str.strip\<close> removes
  the ASCII whitespace, \<^verbatim>\<open>str.upper\<close> maps \<open>a..z\<close> and \<^verbatim>\<open>\d\<close> matches \<open>0..9\<close>.
\<close>

definition is_space :: "char \<Rightarrow> bool" where
  "is_space c =
     (let n = (of_char c :: nat) in n = 32 \<or> (9 \<le> n \<and> n \<le> 13) \<or> (28 \<le> n \<and> n \<le> 31))"

definition is_digit :: "char \<Rightarrow> bool" where
  "is_digit c = (let n = (of_char c :: nat) in 48 \<le> n \<and> n \<le> 57)"

definition is_digit_or_dot :: "char \<Rightarrow> bool" where
  "is_digit_or_dot c = (is_digit c \<or> c = CHR ''.'')"

definition strip :: "string \<Rightarrow> string" where
  "strip s = rev (dropWhile is_space (rev (dropWhile is_space s)))"

definition upper_char :: "char \<Rightarrow> char" where
  "upper_char c =
     (let n = (of_char c :: nat) in if 97 \<le> n \<and> n \<le> 122 then char_of (n - 32) else c)"

definition upper :: "string \<Rightarrow> string" where
  "upper s = map upper_char s"

definition startswith :: "string \<Rightarrow> string \<Rightarrow> bool" where
  "startswith line pre = (take (length pre) line = pre)"

text \<open>\<^verbatim>\<open>s.split(sep)\<close> for a one-character separator: never an empty list.\<close>

fun split_on :: "char \<Rightarrow> string \<Rightarrow> string list" where
  "split_on sep [] = [[]]"
| "split_on sep (c # cs) =
     (if c = sep then [] # split_on sep cs
      else (case split_on sep cs of [] \<Rightarrow> [[c]] | w # ws \<Rightarrow> (c # w) # ws))"

text \<open>\<^verbatim>\<open>s.split(':')[1]\<close>, which raises when there is no colon.\<close>

definition second_field :: "string \<Rightarrow> py_error + string" where
  "second_field line =
     (case split_on (CHR '':'') line of _ # x # _ \<Rightarrow> Inr x | _ \<Rightarrow> Inl IndexError)"

text \<open>\<^verbatim>\<open>s.split(':', 1)[1]\<close>: all that follows the first colon.\<close>

definition after_colon :: "string \<Rightarrow> py_error + string" where
  "after_colon line =
     (case dropWhile (\<lambda>c. c \<noteq> CHR '':'') line of [] \<Rightarrow> Inl IndexError | _ # rest \<Rightarrow> Inr rest)"

text \<open>
  \<^verbatim>\<open>re.search(r'\d+', s)\<close> and \<^verbatim>\<open>re.search(r'[\d.]+', s)\<close>: the first maximal run of
  characters of the class, \<open>None\<close> when there is none.
\<close>

definition search_run :: "(char \<Rightarrow> bool) \<Rightarrow> string \<Rightarrow> string option" where
  "search_run cls s =
     (let rest = dropWhile (\<lambda>c. \<not> cls c) s
      in if rest = [] then None else Some (takeWhile cls rest))"

definition int_of_digits :: "string \<Rightarrow> int" where
  "int_of_digits ds = foldl (\<lambda>n c. 10 * n + (int (of_char c) - 48)) 0 ds"

text \<open>
  \<^verbatim>\<open>float(s)\<close> on a string of digits and dots, which is all the second pattern can match:
  the value of the decimal numeral when there is at most one dot and at least one digit,
  \<^verbatim>\<open>ValueError\<close> otherwise.
\<close>

definition py_float :: "string \<Rightarrow> py_error + real" where
  "py_float s =
     (let ip = takeWhile is_digit s; rest = dropWhile is_digit s
      in (case rest of
            [] \<Rightarrow> if ip = [] then Inl ValueError else Inr (of_int (int_of_digits ip))
          | c # fp \<Rightarrow>
              if c = CHR ''.'' \<and> list_all is_digit fp \<and> (ip \<noteq> [] \<or> fp \<noteq> [])
              then Inr (of_int (int_of_digits ip) + of_int (int_of_digits fp) / 10 ^ length fp)
              else Inl ValueError))"

text \<open>The result dict of \<^verbatim>\<open>_parse_technical_response\<close>.\<close>

record tech_result =
  direction :: string
  confidence :: int
  tp :: real
  sl :: real
  reason :: string

definition initial_result :: tech_result where
  "initial_result =
     \<lparr>direction = ''SKIP'', confidence = 0, tp = 0, sl = 0,
      reason = ''Failed to parse response''\<rparr>"

text \<open>
  One turn of the loop over the lines: the \<^verbatim>\<open>if/elif\<close> chain on the stripped line. An
  exception leaves the dict as it was before the line.
\<close>

definition parse_line :: "tech_result \<Rightarrow> string \<Rightarrow> py_error + tech_result" where
  "parse_line result raw =
     (let line = strip raw in
      if startswith line ''DIRECTION:'' then
        (case second_field line of
           Inl e \<Rightarrow> Inl e
         | Inr x \<Rightarrow>
             let d = upper (strip x)
             in if d \<in> set [''LONG'', ''SHORT'', ''SKIP''] then Inr (result\<lparr>direction := d\<rparr>)
                else Inr result)
      else if startswith line ''CONFIDENCE:'' then
        (case second_field line of
           Inl e \<Rightarrow> Inl e
         | Inr x \<Rightarrow>
             (case search_run is_digit (strip x) of
                None \<Rightarrow> Inr result
              | Some m \<Rightarrow> Inr (result\<lparr>confidence := int_of_digits m\<rparr>)))
      else if startswith line ''TP:'' then
        (case second_field line of
           Inl e \<Rightarrow> Inl e
         | Inr x \<Rightarrow>
             (case search_run is_digit_or_dot (strip x) of
                None \<Rightarrow> Inr result
              | Some m \<Rightarrow>
                  (case py_float m of Inl e \<Rightarrow> Inl e | Inr v \<Rightarrow> Inr (result\<lparr>tp := v\<rparr>))))
      else if startswith line ''SL:'' then
        (case second_field line of
           Inl e \<Rightarrow> Inl e
         | Inr x \<Rightarrow>
             (case search_run is_digit_or_dot (strip x) of
                None \<Rightarrow> Inr result
              | Some m \<Rightarrow>
                  (case py_float m of Inl e \<Rightarrow> Inl e | Inr v \<Rightarrow> Inr (result\<lparr>sl := v\<rparr>))))
      else if startswith line ''REASON:'' then
        (case after_colon line of
           Inl e \<Rightarrow> Inl e
         | Inr x \<Rightarrow> Inr (result\<lparr>reason := strip x\<rparr>))
      else Inr result)"

text \<open>
  The loop inside the \<^verbatim>\<open>try\<close>: the exception, if one was raised, with the dict as the
  lines before it left it.
\<close>

fun parse_lines :: "tech_result \<Rightarrow> string list \<Rightarrow> py_error option \<times> tech_result" where
  "parse_lines result [] = (None, result)"
| "parse_lines result (l # ls) =
     (case parse_line result l of
        Inl e \<Rightarrow> (Some e, result)
      | Inr result' \<Rightarrow> parse_lines result' ls)"

text \<open>The block under the comment \<^verbatim>\<open>Set default TP/SL based on ATR if not parsed\<close>.\<close>

definition default_bracket :: "tech_result \<Rightarrow> real \<Rightarrow> real \<Rightarrow> tech_result" where
  "default_bracket result entry atr =
     (if tp result = 0 \<and> direction result \<noteq> ''SKIP'' then
        (if direction result = ''LONG'' then result\<lparr>tp := entry + atr, sl := entry - atr\<rparr>
         else result\<lparr>tp := entry - atr, sl := entry + atr\<rparr>)
      else result)"

text \<open>
  \<^verbatim>\<open>_parse_technical_response(response, price, atr)\<close> (the parameter \<open>price\<close> is
  \<open>entry\<close> here, \<open>price\<close> being a field of \<open>layer\<close>): the \<^verbatim>\<open>except\<close> clause prints and
  falls through to \<^verbatim>\<open>return result\<close>, past the default block.
\<close>

definition parse_technical_response :: "string \<Rightarrow> real \<Rightarrow> real \<Rightarrow> tech_result" where
  "parse_technical_response response entry atr =
     (case parse_lines initial_result (split_on (CHR 0x0A) (strip response)) of
        (Some e, result) \<Rightarrow> result
      | (None, result) \<Rightarrow> default_bracket result entry atr)"

text \<open>
  \<^verbatim>\<open>analyze_technical\<close>: the request to the API either raises, with some message, or
  yields the content of the reply; the first gives the SKIP dict of the \<^verbatim>\<open>except\<close>
  clause, the second goes through the parser.
\<close>

definition analyze_technical :: "string + string \<Rightarrow> real \<Rightarrow> real \<Rightarrow> tech_result" where
  "analyze_technical reply entry atr_value =
     (case reply of
        Inl msg \<Rightarrow>
          \<lparr>direction = ''SKIP'', confidence = 0, tp = 0, sl = 0, reason = ''API error: '' @ msg\<rparr>
      | Inr content \<Rightarrow> parse_technical_response content entry atr_value)"

text \<open>The dict returned by \<^verbatim>\<open>analyze_with_sentiment\<close>.\<close>

record x_result =
  take_trade :: bool
  sentiment :: string
  buzz_score :: int
  btc_status :: string
  whale_alert :: bool
  x_reason :: string

section \<open>The bot (main.py)\<close>

definition LEVERAGE :: int where "LEVERAGE = 10"
definition MAX_RISK_PERCENT :: real where "MAX_RISK_PERCENT = 2 / 10"
definition ACCOUNT_BALANCE :: real where "ACCOUNT_BALANCE = 1000"
definition COOLDOWN_SECONDS :: real where "COOLDOWN_SECONDS = 60"
definition MAX_CALLS_PER_DAY :: int where "MAX_CALLS_PER_DAY = 500"
definition MAX_X_SEARCHES_PER_DAY :: int where "MAX_X_SEARCHES_PER_DAY = 100"
definition MIN_CONFIDENCE :: int where "MIN_CONFIDENCE = 60"
definition HIGH_CONFIDENCE :: int where "HIGH_CONFIDENCE = 80"
definition LAYER_THRESHOLD_PCT :: real where "LAYER_THRESHOLD_PCT = 1 / 10"

text \<open>
  The clock is a parameter: \<open>now\<close> is the number of seconds since the epoch that
  \<^verbatim>\<open>time.time()\<close> returns, and \<^verbatim>\<open>datetime.utcnow()\<close> is the UTC date and time of the same
  instant. \<open>utc_date now\<close> numbers the UTC calendar days from 1970-01-01;
  \<open>day_of_month\<close> is the field \<^verbatim>\<open>.day\<close> of that date in the Gregorian calendar (the
  usual conversion of a day number to year, month and day, of which only the day is kept).
\<close>

definition utc_date :: "real \<Rightarrow> int" where
  "utc_date now = \<lfloor>now / 86400\<rfloor>"

definition day_of_month :: "int \<Rightarrow> int" where
  "day_of_month days =
     (let z = days + 719468;
          era = z div 146097;
          doe = z - era * 146097;
          yoe = (doe - doe div 1460 + doe div 36524 - doe div 146096) div 365;
          doy = doe - (365 * yoe + yoe div 4 - yoe div 100);
          mp = (5 * doy + 2) div 153
      in doy - (153 * mp + 2) div 5 + 1)"

definition utc_day :: "real \<Rightarrow> int" where
  "utc_day now = day_of_month (utc_date now)"

text \<open>The rate-limit attributes of \<^verbatim>\<open>PepeScalpingBot\<close>.\<close>

record bot_state =
  last_api_call :: real
  daily_calls :: int
  daily_x_searches :: int
  last_reset_day :: int

text \<open>\<^verbatim>\<open>__init__\<close> at the instant \<open>now\<close>.\<close>

definition init_state :: "real \<Rightarrow> bot_state" where
  "init_state now =
     \<lparr>last_api_call = 0, daily_calls = 0, daily_x_searches = 0, last_reset_day = utc_day now\<rparr>"

text \<open>\<^verbatim>\<open>can_call_api\<close>: the answer and the attributes after the call.\<close>

definition roll_over :: "real \<Rightarrow> bot_state \<Rightarrow> bot_state" where
  "roll_over now st =
     (let current_day = utc_day now
      in if current_day \<noteq> last_reset_day st
         then st\<lparr>daily_calls := 0, daily_x_searches := 0, last_reset_day := current_day\<rparr>
         else st)"

definition can_call_api :: "real \<Rightarrow> bot_state \<Rightarrow> bool \<times> bot_state" where
  "can_call_api now st =
     (let st1 = roll_over now st
      in if daily_calls st1 \<ge> MAX_CALLS_PER_DAY then (False, st1)
         else
           let elapsed = now - last_api_call st1
           in (elapsed \<ge> COOLDOWN_SECONDS, st1))"

text \<open>
  What a cycle does to the outside, in order: a row of the API usage log, the call of an
  oracle (with the dict it returned), the computation of a position size, a row of the
  trade log, an alert. The alerts carry direction, entry, TP, SL and size.
\<close>

datatype event =
    ApiLog string
  | TechnicalCall tech_result
  | SizeComputed real
  | TradeLog string real real real int
  | HighAlert string real real real real
  | SentimentCall x_result
  | BorderlineAlert string real real real real

type_synonym outcome = "bot_state \<times> event list \<times> py_error option"

text \<open>
  The part of \<^verbatim>\<open>on_candle\<close> under \<^verbatim>\<open>DECISION LOGIC\<close>. \<open>x_res\<close> is what
  \<^verbatim>\<open>analyze_with_sentiment\<close> returns if it is called. The position size is computed as
  soon as the confidence reaches the minimum, before the two branches; its exception is
  not caught in \<^verbatim>\<open>on_candle\<close>.
\<close>

definition decision_logic :: "bot_state \<Rightarrow> real \<Rightarrow> tech_result \<Rightarrow> x_result \<Rightarrow> outcome" where
  "decision_logic st current_price result x_res =
     (if confidence result < MIN_CONFIDENCE then (st, [], None)
      else
        (case calculate_position_size ACCOUNT_BALANCE MAX_RISK_PERCENT current_price (sl result)
                LEVERAGE of
           Inl e \<Rightarrow> (st, [], Some e)
         | Inr position_size \<Rightarrow>
             if confidence result \<ge> HIGH_CONFIDENCE then
               (st,
                [SizeComputed position_size,
                 TradeLog (direction result) current_price (tp result) (sl result) (confidence result),
                 HighAlert (direction result) current_price (tp result) (sl result) position_size],
                None)
             else if daily_x_searches st \<ge> MAX_X_SEARCHES_PER_DAY then
               (st, [SizeComputed position_size], None)
             else
               let st' = st\<lparr>daily_x_searches := daily_x_searches st + 1\<rparr>
               in if take_trade x_res then
                    (st',
                     [SizeComputed position_size, ApiLog ''x_search'', SentimentCall x_res,
                      TradeLog (direction result) current_price (tp result) (sl result)
                        (confidence result),
                      BorderlineAlert (direction result) current_price (tp result) (sl result)
                        position_size],
                     None)
                  else
                    (st', [SizeComputed position_size, ApiLog ''x_search'', SentimentCall x_res],
                     None)))"

text \<open>
  A candle of the window kept by the websocket client, and what a cycle reads from the
  outside: the window (the callback is called with \<^verbatim>\<open>self.candles\<close>, the list that
  \<^verbatim>\<open>get_ohlcv_lists\<close> and \<^verbatim>\<open>get_candles_summary\<close> read), the clock, the pandas
  computations, the outcome of the request to the technical oracle and the dict of the
  sentiment oracle.
\<close>

record candle =
  c_open :: real
  c_high :: real
  c_low :: real
  c_close :: real
  c_volume :: real

record cycle_env =
  candles :: "candle list"
  now :: real
  atr_frame :: pandas_frame
  adx_frame :: pandas_frame
  technical_reply :: "string + string"
  sentiment_result :: x_result

text \<open>
  \<^verbatim>\<open>volume_ratio\<close> divides by the mean volume; \<^verbatim>\<open>get_candles_summary\<close> divides by the open
  of each of the last ten candles (its text only enters the prompt and is not modelled).
\<close>

definition volume_ratio :: "real list \<Rightarrow> py_error + real" where
  "volume_ratio volumes =
     (if volumes = [] then Inr 1
      else
        let mean = sum_list volumes / of_nat (length volumes)
        in if mean = 0 then Inl ZeroDivisionError else Inr (last volumes / mean))"

definition candles_summary_error :: "candle list \<Rightarrow> py_error option" where
  "candles_summary_error cs =
     (if list_ex (\<lambda>c. c_open c = 0) (drop (length cs - 10) cs) then Some ZeroDivisionError
      else None)"

text \<open>
  \<^verbatim>\<open>on_candle\<close>, one cycle. The counter \<^verbatim>\<open>_update_count\<close> and the prints are left out.
\<close>

definition on_candle :: "cycle_env \<Rightarrow> bot_state \<Rightarrow> outcome" where
  "on_candle env st =
     (if length (candles env) < 20 then (st, [], None)
      else
        let highs = map c_high (candles env);
            lows = map c_low (candles env);
            closes = map c_close (candles env);
            volumes = map c_volume (candles env);
            current_price = last closes
        in
        (case calculate_atr (atr_frame env) highs lows closes 14 of
           Inl e \<Rightarrow> (st, [], Some e)
         | Inr atr \<Rightarrow>
        (case calculate_adx (adx_frame env) highs lows closes 14 of
           Inl e \<Rightarrow> (st, [], Some e)
         | Inr adx \<Rightarrow>
        (case volume_ratio volumes of
           Inl e \<Rightarrow> (st, [], Some e)
         | Inr vr \<Rightarrow>
        (case find_layers highs lows closes (Some volumes) (1 / 10) 4 of
           Inl e \<Rightarrow> (st, [], Some e)
         | Inr (resistance_layers, support_layers) \<Rightarrow>
        (case find_nearest_layer current_price resistance_layers support_layers
                LAYER_THRESHOLD_PCT of
           None \<Rightarrow> (st, [], None)
         | Some near_layer \<Rightarrow>
        (case can_call_api (now env) st of
           (False, st1) \<Rightarrow> (st1, [], None)
         | (True, st1) \<Rightarrow>
             let st2 = st1\<lparr>last_api_call := now env, daily_calls := daily_calls st1 + 1\<rparr>
             in (case candles_summary_error (candles env) of
                   Some e \<Rightarrow> (st2, [ApiLog ''technical''], Some e)
                 | None \<Rightarrow>
                     let result = analyze_technical (technical_reply env) current_price atr
                     in (case decision_logic st2 current_price result (sentiment_result env) of
                           (st3, evs, err) \<Rightarrow>
                             (st3, ApiLog ''technical'' # TechnicalCall result # evs, err))))))))))"

section \<open>Auxiliary predicates for the proofs\<close>

text \<open>
  \<open>first_nearest ls th r\<close>: \<open>r\<close> is the answer the scan of \<open>ls\<close> must give for the
  threshold \<open>th\<close>: nothing when no element is within the threshold, otherwise the element
  at the first position whose distance is minimal among those within it.
\<close>

definition first_nearest :: "layer list \<Rightarrow> real \<Rightarrow> layer option \<Rightarrow> bool" where
  "first_nearest ls th r =
     (case r of
        None \<Rightarrow> \<forall>l \<in> set ls. \<not> distance_pct l \<le> th
      | Some l \<Rightarrow>
          \<exists>i < length ls. ls ! i = l \<and> distance_pct l \<le> th
            \<and> (\<forall>j < length ls. distance_pct (ls ! j) \<le> th \<longrightarrow> distance_pct l \<le> distance_pct (ls ! j))
            \<and> (\<forall>j < i. distance_pct (ls ! j) \<le> th \<longrightarrow> distance_pct l < distance_pct (ls ! j)))"

text \<open>Recognisers of the events, to count them in the trace of a cycle.\<close>

fun is_sentiment_call :: "event \<Rightarrow> bool" where
  "is_sentiment_call (SentimentCall x) = True"
| "is_sentiment_call e = False"

fun is_technical_call :: "event \<Rightarrow> bool" where
  "is_technical_call (TechnicalCall r) = True"
| "is_technical_call e = False"

fun is_alert :: "event \<Rightarrow> bool" where
  "is_alert (HighAlert d e t s z) = True"
| "is_alert (BorderlineAlert d e t s z) = True"
| "is_alert e = False"

fun is_size_computed :: "event \<Rightarrow> bool" where
  "is_size_computed (SizeComputed z) = True"
| "is_size_computed e = False"

section \<open>Example inputs\<close>

text \<open>
  A window of twenty one-minute candles at price 1 with one swing high at 1.0005, 0.05%
  above the last close; pandas computations that return a fixed value; a technical reply
  of confidence 65; a rejecting and an accepting sentiment dict. The clock reads
  2024-01-05 12:00:00 UTC.
\<close>

definition constant_frame :: "real \<Rightarrow> pandas_frame" where
  "constant_frame v highs lows closes period = Inr v"

definition flat_candle :: candle where
  "flat_candle = \<lparr>c_open = 1, c_high = 1, c_low = 99 / 100, c_close = 1, c_volume = 10\<rparr>"

definition example_window :: "candle list" where
  "example_window =
     [flat_candle, flat_candle, flat_candle\<lparr>c_high := 10005 / 10000\<rparr>] @ replicate 17 flat_candle"

definition rejecting :: x_result where
  "rejecting =
     \<lparr>take_trade = False, sentiment = ''NEUTRAL'', buzz_score = 10, btc_status = ''FLAT'',
      whale_alert = False, x_reason = ''quiet''\<rparr>"

definition accepting :: x_result where
  "accepting =
     \<lparr>take_trade = True, sentiment = ''BULLISH'', buzz_score = 70, btc_status = ''UP'',
      whale_alert = False, x_reason = ''momentum''\<rparr>"

definition borderline_reply :: tech_result where
  "borderline_reply =
     \<lparr>direction = ''LONG'', confidence = 65, tp = 1001 / 1000, sl = 99 / 100,
      reason = ''bounce''\<rparr>"

definition example_env :: cycle_env where
  "example_env =
     \<lparr>candles = example_window, now = 1704456000,
      atr_frame = constant_frame (2 / 10000), adx_frame = constant_frame 20,
      technical_reply =
        Inr ''DIRECTION: LONG\<newline>CONFIDENCE: 65\<newline>TP: 1.001\<newline>SL: 0.99\<newline>REASON: bounce'',
      sentiment_result = rejecting\<rparr>"

section \<open>Properties of the position sizer\<close>

lemma py_round_of_int: "py_round (of_int k) n = of_int k"
proof -
  have "real_of_int k * 10 ^ n = of_int (k * 10 ^ n)" by simp
  then have "round_half_even (of_int k * 10 ^ n) = k * 10 ^ n"
    unfolding round_half_even_def Let_def by (simp only: floor_of_int) simp
  then show ?thesis by (simp add: py_round_def)
qed





text \<open>
  C10. The size is not capped by the account: with a stop 0.01% away from the entry the
  size exceeds balance times leverage.
\<close>

theorem position_size_uncapped:
  "\<exists>balance risk_pct entry stop_loss leverage size.
     0 < balance \<and> 0 < risk_pct \<and> 0 < entry \<and> 0 < stop_loss \<and> 0 < leverage
     \<and> entry \<noteq> stop_loss
     \<and> calculate_position_size balance risk_pct entry stop_loss leverage = Inr size
     \<and> balance * of_int leverage < size"
proof -
  have r: "py_round (of_int 20000) 2 = of_int 20000" by (rule py_round_of_int)
  have "calculate_position_size 1000 (2 / 10) 1 (9999 / 10000) 10 = Inr 20000"
    using r by (simp add: calculate_position_size_def Let_def)
  then show ?thesis
    by (intro exI [where x = "1000::real"] exI [where x = "2 / 10 :: real"]
        exI [where x = "1::real"] exI [where x = "9999 / 10000 :: real"]
        exI [where x = "10::int"] exI [where x = "20000::real"]) simp
qed

section \<open>Properties of the layer matcher\<close>

lemma first_nearest_snoc_keep:
  assumes "first_nearest pre th r"
    and "\<not> (below_min (distance_pct l) (map_option distance_pct r) \<and> distance_pct l \<le> th)"
  shows "first_nearest (pre @ [l]) th r"
proof (cases r)
  case None
  with assms show ?thesis by (auto simp: first_nearest_def below_min_def)
next
  case (Some l0)
  from assms(1) Some obtain i where i: "i < length pre" "pre ! i = l0" "distance_pct l0 \<le> th"
    "\<forall>j < length pre. distance_pct (pre ! j) \<le> th \<longrightarrow> distance_pct l0 \<le> distance_pct (pre ! j)"
    "\<forall>j < i. distance_pct (pre ! j) \<le> th \<longrightarrow> distance_pct l0 < distance_pct (pre ! j)"
    by (auto simp: first_nearest_def)
  from assms(2) Some have nl: "distance_pct l \<le> th \<Longrightarrow> distance_pct l0 \<le> distance_pct l"
    by (auto simp: below_min_def)
  have "\<forall>j < length (pre @ [l]). distance_pct ((pre @ [l]) ! j) \<le> th
          \<longrightarrow> distance_pct l0 \<le> distance_pct ((pre @ [l]) ! j)"
    using i(4) nl by (auto simp: nth_append less_Suc_eq)
  moreover have "\<forall>j < i. distance_pct ((pre @ [l]) ! j) \<le> th
          \<longrightarrow> distance_pct l0 < distance_pct ((pre @ [l]) ! j)"
    using i(1,5) by (auto simp: nth_append)
  moreover have "i < length (pre @ [l])" "(pre @ [l]) ! i = l0"
    using i(1,2) by (auto simp: nth_append)
  ultimately show ?thesis
    unfolding first_nearest_def Some using i(3) by (simp only: option.case) blast
qed

lemma first_nearest_snoc_take:
  assumes "first_nearest pre th r"
    and "below_min (distance_pct l) (map_option distance_pct r)" and "distance_pct l \<le> th"
  shows "first_nearest (pre @ [l]) th (Some l)"
proof -
  have older: "\<forall>j < length pre. distance_pct (pre ! j) \<le> th \<longrightarrow> distance_pct l < distance_pct (pre ! j)"
  proof (cases r)
    case None
    with assms(1) show ?thesis by (auto simp: first_nearest_def)
  next
    case (Some l0)
    with assms(1) have "\<forall>j < length pre. distance_pct (pre ! j) \<le> th \<longrightarrow> distance_pct l0 \<le> distance_pct (pre ! j)"
      by (auto simp: first_nearest_def)
    moreover from assms(2) Some have "distance_pct l < distance_pct l0" by (simp add: below_min_def)
    ultimately show ?thesis by fastforce
  qed
  have "\<forall>j < length (pre @ [l]). distance_pct ((pre @ [l]) ! j) \<le> th
          \<longrightarrow> distance_pct l \<le> distance_pct ((pre @ [l]) ! j)"
    using older by (auto simp: nth_append less_Suc_eq less_imp_le)
  moreover have "\<forall>j < length pre. distance_pct ((pre @ [l]) ! j) \<le> th
          \<longrightarrow> distance_pct l < distance_pct ((pre @ [l]) ! j)"
    using older by (auto simp: nth_append)
  moreover have "length pre < length (pre @ [l])" "(pre @ [l]) ! length pre = l" by auto
  ultimately show ?thesis
    unfolding first_nearest_def using assms(3) by (simp only: option.case) blast
qed

lemma nearest_loop_first_nearest:
  "first_nearest pre th r \<Longrightarrow>
     first_nearest (pre @ ls) th (nearest_loop ls th r (map_option distance_pct r))"
proof (induction ls arbitrary: pre r)
  case Nil
  then show ?case by simp
next
  case (Cons l ls)
  show ?case
  proof (cases "below_min (distance_pct l) (map_option distance_pct r) \<and> distance_pct l \<le> th")
    case True
    then have "first_nearest (pre @ [l]) th (Some l)"
      using Cons.prems first_nearest_snoc_take by blast
    from Cons.IH [OF this] True show ?thesis by simp
  next
    case False
    then have "first_nearest (pre @ [l]) th r"
      using Cons.prems first_nearest_snoc_keep by blast
    from Cons.IH [OF this] False show ?thesis by auto
  qed
qed

text \<open>
  C4. \<open>find_nearest_layer\<close> returns nothing when both lists are empty or no layer is
  within the threshold; otherwise it returns the layer at the first position, scanning the
  resistance layers and then the support layers, whose distance is minimal among the
  layers within the threshold: no layer within the threshold is nearer, and every earlier
  one within the threshold is strictly farther.
\<close>

theorem find_nearest_layer_first_minimum:
  "find_nearest_layer current_price [] [] threshold_pct = None
   \<and> ((\<forall>l \<in> set (resistance_layers @ support_layers). \<not> distance_pct l \<le> threshold_pct) \<longrightarrow>
        find_nearest_layer current_price resistance_layers support_layers threshold_pct = None)
   \<and> ((\<exists>l \<in> set (resistance_layers @ support_layers). distance_pct l \<le> threshold_pct) \<longrightarrow>
        (\<exists>i < length (resistance_layers @ support_layers).
           find_nearest_layer current_price resistance_layers support_layers threshold_pct =
             Some ((resistance_layers @ support_layers) ! i)
           \<and> distance_pct ((resistance_layers @ support_layers) ! i) \<le> threshold_pct
           \<and> (\<forall>j < length (resistance_layers @ support_layers).
                 distance_pct ((resistance_layers @ support_layers) ! j) \<le> threshold_pct \<longrightarrow>
                 distance_pct ((resistance_layers @ support_layers) ! i)
                   \<le> distance_pct ((resistance_layers @ support_layers) ! j))
           \<and> (\<forall>j < i.
                 distance_pct ((resistance_layers @ support_layers) ! j) \<le> threshold_pct \<longrightarrow>
                 distance_pct ((resistance_layers @ support_layers) ! i)
                   < distance_pct ((resistance_layers @ support_layers) ! j))))"
proof -
  define all_layers where "all_layers = resistance_layers @ support_layers"
  define r where "r = find_nearest_layer current_price resistance_layers support_layers threshold_pct"
  have "first_nearest [] threshold_pct None" by (simp add: first_nearest_def)
  from nearest_loop_first_nearest [OF this, of all_layers]
  have fn: "first_nearest all_layers threshold_pct r"
    by (simp add: find_nearest_layer_def r_def all_layers_def)
  have empty: "find_nearest_layer current_price [] [] threshold_pct = None"
    by (simp add: find_nearest_layer_def)
  have none: "r = None" if "\<forall>l \<in> set all_layers. \<not> distance_pct l \<le> threshold_pct"
  proof (cases r)
    case None
    then show ?thesis .
  next
    case (Some l)
    with fn obtain i where "i < length all_layers" "all_layers ! i = l" "distance_pct l \<le> threshold_pct"
      by (auto simp: first_nearest_def)
    with that show ?thesis using nth_mem by blast
  qed
  have some: "\<exists>i < length all_layers. r = Some (all_layers ! i)
           \<and> distance_pct (all_layers ! i) \<le> threshold_pct
           \<and> (\<forall>j < length all_layers. distance_pct (all_layers ! j) \<le> threshold_pct \<longrightarrow>
                 distance_pct (all_layers ! i) \<le> distance_pct (all_layers ! j))
           \<and> (\<forall>j < i. distance_pct (all_layers ! j) \<le> threshold_pct \<longrightarrow>
                 distance_pct (all_layers ! i) < distance_pct (all_layers ! j))"
    if "\<exists>l \<in> set all_layers. distance_pct l \<le> threshold_pct"
  proof (cases r)
    case None
    with fn that show ?thesis by (auto simp: first_nearest_def)
  next
    case (Some l)
    with fn show ?thesis by (auto simp: first_nearest_def)
  qed
  from empty none some show ?thesis unfolding r_def all_layers_def by blast
qed

theorem find_nearest_layer_first_minimum_witness:
  "(\<exists>l \<in> set ([\<lparr>price = 1001 / 1000, layer_type = ''resistance'', touches = 1, strength = 1,
                   distance_pct = 1 / 10\<rparr>,
                 \<lparr>price = 10005 / 10000, layer_type = ''resistance'', touches = 2, strength = 2,
                   distance_pct = 5 / 100\<rparr>]
               @ [\<lparr>price = 9995 / 10000, layer_type = ''support'', touches = 3, strength = 3,
                    distance_pct = 5 / 100\<rparr>]).
      distance_pct l \<le> 1 / 10)
   \<and> find_nearest_layer 1
        [\<lparr>price = 1001 / 1000, layer_type = ''resistance'', touches = 1, strength = 1,
           distance_pct = 1 / 10\<rparr>,
         \<lparr>price = 10005 / 10000, layer_type = ''resistance'', touches = 2, strength = 2,
           distance_pct = 5 / 100\<rparr>]
        [\<lparr>price = 9995 / 10000, layer_type = ''support'', touches = 3, strength = 3,
           distance_pct = 5 / 100\<rparr>] (1 / 10)
      = Some \<lparr>price = 10005 / 10000, layer_type = ''resistance'', touches = 2, strength = 2,
           distance_pct = 5 / 100\<rparr>"
  using find_nearest_layer_first_minimum [where current_price = 1 and threshold_pct = "1 / 10"
      and resistance_layers =
        "[\<lparr>price = 1001 / 1000, layer_type = ''resistance'', touches = 1, strength = 1,
           distance_pct = 1 / 10\<rparr>,
         \<lparr>price = 10005 / 10000, layer_type = ''resistance'', touches = 2, strength = 2,
           distance_pct = 5 / 100\<rparr>]"
      and support_layers =
        "[\<lparr>price = 9995 / 10000, layer_type = ''support'', touches = 3, strength = 3,
           distance_pct = 5 / 100\<rparr>]"]
  by (simp add: find_nearest_layer_def below_min_def)

section \<open>Properties of the clustering\<close>













section \<open>Properties of the layers\<close>

lemma strength_bounds:
  "1 \<le> calculate_layer_strength cl total_bars volumes \<and> calculate_layer_strength cl total_bars volumes \<le> 3"
  by (simp add: calculate_layer_strength_def Let_def)

lemma strength_single_touch:
  "c_touches cl = 1 \<Longrightarrow> \<not> has_recent cl total_bars \<Longrightarrow> \<not> volume_confirmed cl volumes
     \<Longrightarrow> calculate_layer_strength cl total_bars volumes = 1"
  by (simp add: calculate_layer_strength_def Let_def)

lemma resistance_of_layers:
  assumes "resistance_of cls cur total_bars volumes = Inr ls" and "l \<in> set ls"
  shows "layer_type l = ''resistance'' \<and> cur < price l \<and> 1 \<le> strength l \<and> strength l \<le> 3
         \<and> (0 < cur \<longrightarrow> 0 \<le> distance_pct l)"
  using assms
proof (induction cls arbitrary: ls)
  case Nil
  then show ?case by simp
next
  case (Cons cl cls)
  show ?case
  proof (cases "c_price cl > cur")
    case False
    with Cons show ?thesis by simp
  next
    case True
    with Cons.prems(1) obtain ls' where ls': "resistance_of cls cur total_bars volumes = Inr ls'"
      and ls: "ls = \<lparr>price = c_price cl, layer_type = ''resistance'',
                         touches = c_touches cl, strength = calculate_layer_strength cl total_bars volumes,
                         distance_pct = (c_price cl - cur) / cur * 100\<rparr> # ls'"
      by (auto simp: Let_def split: if_splits sum.splits)
    from Cons.prems(2) ls consider "l = \<lparr>price = c_price cl, layer_type = ''resistance'',
                         touches = c_touches cl, strength = calculate_layer_strength cl total_bars volumes,
                         distance_pct = (c_price cl - cur) / cur * 100\<rparr>" | "l \<in> set ls'" by auto
    then show ?thesis
    proof cases
      case 1
      with True strength_bounds [of cl total_bars volumes] show ?thesis by simp
    next
      case 2
      with Cons.IH ls' show ?thesis by blast
    qed
  qed
qed

lemma support_of_layers:
  assumes "support_of cls cur total_bars volumes = Inr ls" and "l \<in> set ls"
  shows "layer_type l = ''support'' \<and> price l < cur \<and> 1 \<le> strength l \<and> strength l \<le> 3
         \<and> (0 < cur \<longrightarrow> 0 \<le> distance_pct l)"
  using assms
proof (induction cls arbitrary: ls)
  case Nil
  then show ?case by simp
next
  case (Cons cl cls)
  show ?case
  proof (cases "c_price cl < cur")
    case False
    with Cons show ?thesis by simp
  next
    case True
    with Cons.prems(1) obtain ls' where ls': "support_of cls cur total_bars volumes = Inr ls'"
      and ls: "ls = \<lparr>price = c_price cl, layer_type = ''support'',
                         touches = c_touches cl, strength = calculate_layer_strength cl total_bars volumes,
                         distance_pct = (cur - c_price cl) / cur * 100\<rparr> # ls'"
      by (auto simp: Let_def split: if_splits sum.splits)
    from Cons.prems(2) ls consider "l = \<lparr>price = c_price cl, layer_type = ''support'',
                         touches = c_touches cl, strength = calculate_layer_strength cl total_bars volumes,
                         distance_pct = (cur - c_price cl) / cur * 100\<rparr>" | "l \<in> set ls'" by auto
    then show ?thesis
    proof cases
      case 1
      with True strength_bounds [of cl total_bars volumes] show ?thesis by simp
    next
      case 2
      with Cons.IH ls' show ?thesis by blast
    qed
  qed
qed

lemma set_py_prefix: "set (py_prefix xs n) \<subseteq> set xs"
  by (simp add: py_prefix_def set_take_subset)

lemma set_ranked: "l \<in> set (py_prefix (sort_layers ls) n) \<Longrightarrow> l \<in> set ls"
  using set_py_prefix [of "sort_layers ls" n] by (auto simp: sort_layers_def)

lemma find_layers_sources:
  assumes "find_layers highs lows closes volumes cluster_threshold max_layers = Inr (rs, ss)"
  shows "\<exists>rcls scls rls sls.
           resistance_of rcls (last closes) (int (length closes)) volumes = Inr rls
           \<and> support_of scls (last closes) (int (length closes)) volumes = Inr sls
           \<and> set rs \<subseteq> set rls \<and> set ss \<subseteq> set sls"
proof (cases "length highs < 10")
  case True
  with assms have "rs = []" "ss = []" by (simp_all add: find_layers_def)
  moreover have "resistance_of [] (last closes) (int (length closes)) volumes = Inr []"
    "support_of [] (last closes) (int (length closes)) volumes = Inr []" by simp_all
  ultimately show ?thesis by fastforce
next
  case False
  with assms obtain rcls scls rls sls where
    "resistance_of rcls (last closes) (int (length closes)) volumes = Inr rls"
    "support_of scls (last closes) (int (length closes)) volumes = Inr sls"
    "rs = py_prefix (sort_layers rls) (max_layers div 2)"
    "ss = py_prefix (sort_layers sls) (max_layers div 2)"
    by (auto simp: find_layers_def Let_def split: if_splits sum.splits)
  then show ?thesis using set_ranked by blast
qed

text \<open>
  C8. Every layer returned by \<open>find_layers\<close> has a strength between 1 and 3; a resistance
  layer carries the type \<open>resistance\<close> and a price strictly above the last close, a support
  layer the type \<open>support\<close> and a price strictly below it; and when the last close is
  positive its \<open>distance_pct\<close> is non-negative. The strength function always returns a
  value between 1 and 3, and exactly 1 for a cluster with one touch, no recent index and
  no volume confirmation.
\<close>

theorem find_layers_invariants:
  "(find_layers highs lows closes volumes cluster_threshold max_layers = Inr (rs, ss) \<longrightarrow>
      (\<forall>l \<in> set rs. layer_type l = ''resistance'' \<and> last closes < price l
          \<and> 1 \<le> strength l \<and> strength l \<le> 3 \<and> (0 < last closes \<longrightarrow> 0 \<le> distance_pct l))
      \<and> (\<forall>l \<in> set ss. layer_type l = ''support'' \<and> price l < last closes
          \<and> 1 \<le> strength l \<and> strength l \<le> 3 \<and> (0 < last closes \<longrightarrow> 0 \<le> distance_pct l)))
   \<and> 1 \<le> calculate_layer_strength cl total_bars vols
   \<and> calculate_layer_strength cl total_bars vols \<le> 3
   \<and> (c_touches cl = 1 \<and> \<not> has_recent cl total_bars \<and> \<not> volume_confirmed cl vols \<longrightarrow>
        calculate_layer_strength cl total_bars vols = 1)"
proof -
  have layers: "(\<forall>l \<in> set rs. layer_type l = ''resistance'' \<and> last closes < price l
          \<and> 1 \<le> strength l \<and> strength l \<le> 3 \<and> (0 < last closes \<longrightarrow> 0 \<le> distance_pct l))
      \<and> (\<forall>l \<in> set ss. layer_type l = ''support'' \<and> price l < last closes
          \<and> 1 \<le> strength l \<and> strength l \<le> 3 \<and> (0 < last closes \<longrightarrow> 0 \<le> distance_pct l))"
    if f: "find_layers highs lows closes volumes cluster_threshold max_layers = Inr (rs, ss)"
  proof -
    from find_layers_sources [OF f] obtain rcls scls rls sls where
      r: "resistance_of rcls (last closes) (int (length closes)) volumes = Inr rls"
      and s: "support_of scls (last closes) (int (length closes)) volumes = Inr sls"
      and sub: "set rs \<subseteq> set rls" "set ss \<subseteq> set sls" by blast
    have "layer_type l = ''resistance'' \<and> last closes < price l
          \<and> 1 \<le> strength l \<and> strength l \<le> 3 \<and> (0 < last closes \<longrightarrow> 0 \<le> distance_pct l)"
      if "l \<in> set rs" for l
    proof -
      from that sub have "l \<in> set rls" by blast
      from resistance_of_layers [OF r this] show ?thesis .
    qed
    moreover have "layer_type l = ''support'' \<and> price l < last closes
          \<and> 1 \<le> strength l \<and> strength l \<le> 3 \<and> (0 < last closes \<longrightarrow> 0 \<le> distance_pct l)"
      if "l \<in> set ss" for l
    proof -
      from that sub have "l \<in> set sls" by blast
      from support_of_layers [OF s this] show ?thesis .
    qed
    ultimately show ?thesis by blast
  qed
  show ?thesis
    using layers strength_bounds [of cl total_bars vols] strength_single_touch [of cl total_bars vols]
    by blast
qed

theorem find_layers_invariants_witness:
  "find_layers [3, 3, 4, 3, 3, 3, 3, 3, 3, 3] [2, 2, 2, 2, 2, 2, 1, 2, 2, 2]
     [3, 3, 3, 3, 3, 3, 3, 3, 3, 5 / 2] None (1 / 10) 4 =
   Inr ([\<lparr>price = 4, layer_type = ''resistance'', touches = 1, strength = 1,
          distance_pct = 60\<rparr>],
        [\<lparr>price = 1, layer_type = ''support'', touches = 1, strength = 1,
          distance_pct = 60\<rparr>])
   \<and> (0::real) < last [3, 3, 3, 3, 3, 3, 3, 3, 3, 5 / 2]
   \<and> c_touches \<lparr>c_price = 4, c_touches = 1, c_indices = [2]\<rparr> = 1
   \<and> \<not> has_recent \<lparr>c_price = 4, c_touches = 1, c_indices = [2]\<rparr> 30
   \<and> \<not> volume_confirmed \<lparr>c_price = 4, c_touches = 1, c_indices = [2]\<rparr> None
   \<and> calculate_layer_strength \<lparr>c_price = 4, c_touches = 1, c_indices = [2]\<rparr> 30 None = 1"
proof -
  have f: "find_layers [3, 3, 4, 3, 3, 3, 3, 3, 3, 3] [2, 2, 2, 2, 2, 2, 1, 2, 2, 2]
     [3, 3, 3, 3, 3, 3, 3, 3, 3, 5 / 2] None (1 / 10) 4 =
   Inr ([\<lparr>price = 4, layer_type = ''resistance'', touches = 1, strength = 1,
          distance_pct = 60\<rparr>],
        [\<lparr>price = 1, layer_type = ''support'', touches = 1, strength = 1,
          distance_pct = 60\<rparr>])"
    by code_simp
  have h: "\<not> has_recent \<lparr>c_price = 4, c_touches = 1, c_indices = [2]\<rparr> 30"
    "\<not> volume_confirmed \<lparr>c_price = 4, c_touches = 1, c_indices = [2]\<rparr> None"
    by (simp_all add: has_recent_def volume_confirmed_def)
  from f h find_layers_invariants [where highs = "[3, 3, 4, 3, 3, 3, 3, 3, 3, 3]"
      and lows = "[2, 2, 2, 2, 2, 2, 1, 2, 2, 2]"
      and closes = "[3, 3, 3, 3, 3, 3, 3, 3, 3, 5 / 2]" and volumes = None
      and cluster_threshold = "1 / 10" and max_layers = 4
      and rs = "[\<lparr>price = 4, layer_type = ''resistance'', touches = 1, strength = 1,
          distance_pct = 60\<rparr>]"
      and ss = "[\<lparr>price = 1, layer_type = ''support'', touches = 1, strength = 1,
          distance_pct = 60\<rparr>]"
      and cl = "\<lparr>c_price = 4, c_touches = 1, c_indices = [2]\<rparr>" and total_bars = 30
      and vols = None]
  show ?thesis by simp
qed

text \<open>
  C8 fails for \<open>distance_pct\<close> when the last close is negative: the distance is the price
  difference divided by the last close.
\<close>

theorem find_layers_negative_price_counterexample:
  "find_layers [-3, -3, -2, -3, -3, -3, -3, -3, -3, -3] [-4, -4, -4, -4, -4, -4, -4, -4, -4, -4]
     [-3, -3, -3, -3, -3, -3, -3, -3, -3, -5 / 2] None (1 / 10) 4 =
   Inr ([\<lparr>price = - 2, layer_type = ''resistance'', touches = 1, strength = 1,
          distance_pct = - 20\<rparr>], [])"
  by code_simp

section \<open>Properties of the indicators\<close>

text \<open>
  C3. On a window shorter than the minimum, fewer than \<open>period + 1\<close> bars for the ATR and
  fewer than \<open>2 * period\<close> bars for the ADX (15 and 28 bars for the default period 14), the
  indicator returns exactly 0.0 and does not raise, whatever the pandas computation would
  do on that window.
\<close>

theorem short_window_sentinel:
  "(int (length highs) < period + 1 \<longrightarrow> calculate_atr frame highs lows closes period = Inr 0)
   \<and> (int (length highs) < period * 2 \<longrightarrow> calculate_adx frame' highs lows closes period = Inr 0)
   \<and> (length highs < 15 \<longrightarrow> calculate_atr frame highs lows closes 14 = Inr 0)
   \<and> (length highs < 28 \<longrightarrow> calculate_adx frame' highs lows closes 14 = Inr 0)"
  by (simp add: calculate_atr_def calculate_adx_def)

theorem short_window_sentinel_witness:
  "int (length [1, 2, 3 :: real]) < 14 + 1
   \<and> calculate_atr (\<lambda>h l c p. Inl ValueError) [1, 2, 3] [1, 2] [] 14 = Inr 0
   \<and> int (length [1, 2, 3 :: real]) < 14 * 2
   \<and> calculate_adx (\<lambda>h l c p. Inl ValueError) [1, 2, 3] [1, 2] [] 14 = Inr 0"
  using short_window_sentinel [where highs = "[1, 2, 3]" and lows = "[1, 2]" and closes = "[]"
      and period = 14 and frame = "\<lambda>h l c p. Inl ValueError"
      and frame' = "\<lambda>h l c p. Inl ValueError"]
  by simp

section \<open>Properties of the decision pipeline\<close>

lemma decision_logic_no_technical:
  assumes "decision_logic st cp res xr = (st', evs, err)"
  shows "\<forall>e \<in> set evs. \<not> is_technical_call e"
  using assms
  by (auto simp: decision_logic_def Let_def split: if_splits sum.splits)

lemma position_size_returns:
  assumes "entry \<noteq> 0"
  shows "\<exists>size. calculate_position_size balance risk entry stop leverage = Inr size"
proof (cases "\<bar>entry - stop\<bar> / entry * 100 = 0")
  case True
  with assms show ?thesis by (simp add: calculate_position_size_def)
next
  case False
  with assms show ?thesis by (simp add: calculate_position_size_def Let_def)
qed

lemma decision_logic_borderline:
  assumes "cp \<noteq> 0" and "MIN_CONFIDENCE \<le> confidence res" and "confidence res < HIGH_CONFIDENCE"
    and "daily_x_searches st < MAX_X_SEARCHES_PER_DAY"
  shows "\<exists>size. decision_logic st cp res xr =
           (st\<lparr>daily_x_searches := daily_x_searches st + 1\<rparr>,
            [SizeComputed size, ApiLog ''x_search'', SentimentCall xr] @
              (if take_trade xr
               then [TradeLog (direction res) cp (tp res) (sl res) (confidence res),
                     BorderlineAlert (direction res) cp (tp res) (sl res) size]
               else []),
            None)"
proof -
  from position_size_returns [OF assms(1)] obtain size where
    "calculate_position_size ACCOUNT_BALANCE MAX_RISK_PERCENT cp (sl res) LEVERAGE = Inr size"
    by blast
  with assms(2-4) show ?thesis
    by (auto simp: decision_logic_def Let_def)
qed

lemma resistance_of_zero:
  "resistance_of cls 0 total_bars volumes = Inr ls \<Longrightarrow> ls = []"
  by (induction cls) (auto split: if_splits)

lemma support_of_zero:
  "support_of cls 0 total_bars volumes = Inr ls \<Longrightarrow> ls = []"
  by (induction cls) (auto split: if_splits)

lemma nearest_loop_mem:
  "nearest_loop ls th r m = Some l \<Longrightarrow> r = Some l \<or> l \<in> set ls"
  by (induction ls arbitrary: r m) (auto split: if_splits)

lemma find_nearest_layer_mem:
  "find_nearest_layer cp rs ss th = Some l \<Longrightarrow> l \<in> set (rs @ ss)"
  using nearest_loop_mem [of "rs @ ss" th None None l] by (simp add: find_nearest_layer_def)

lemma find_layers_price_nonzero:
  assumes "find_layers highs lows closes volumes th max_layers = Inr (rs, ss)"
    and "rs @ ss \<noteq> []"
  shows "last closes \<noteq> 0"
proof
  assume z: "last closes = 0"
  show False
  proof (cases "length highs < 10")
    case True
    with assms show False by (simp add: find_layers_def)
  next
    case False
    with assms(1) obtain rcls scls rls sls where
      "resistance_of rcls (last closes) (int (length closes)) volumes = Inr rls"
      "support_of scls (last closes) (int (length closes)) volumes = Inr sls"
      "rs = py_prefix (sort_layers rls) (max_layers div 2)"
      "ss = py_prefix (sort_layers sls) (max_layers div 2)"
      by (auto simp: find_layers_def Let_def split: if_splits sum.splits)
    note src = this
    from src(1) z have "rls = []" using resistance_of_zero by simp
    moreover from src(2) z have "sls = []" using support_of_zero by simp
    ultimately have "rs = []" "ss = []"
      using src(3,4) by (simp_all add: py_prefix_def sort_layers_def)
    with assms(2) show False by simp
  qed
qed

text \<open>
  C2. In a cycle in which the technical oracle was called and answered with a confidence
  in the band from 60 to 79, the search budget not being exhausted before the cycle, the
  sentiment oracle is called exactly once and nothing is raised; the position size is
  computed exactly once, before that call; and when the sentiment dict has
  \<open>take_trade = False\<close> no alert is emitted.
\<close>

theorem borderline_cycle:
  "on_candle env st = (st', evs, err) \<and> TechnicalCall result \<in> set evs
     \<and> MIN_CONFIDENCE \<le> confidence result \<and> confidence result < HIGH_CONFIDENCE
     \<and> daily_x_searches st < MAX_X_SEARCHES_PER_DAY
   \<longrightarrow>
     err = None
     \<and> length (filter is_sentiment_call evs) = 1
     \<and> length (filter is_size_computed evs) = 1
     \<and> (\<exists>pre post size. evs = pre @ SizeComputed size # post
           \<and> (\<forall>e \<in> set pre. \<not> is_sentiment_call e)
           \<and> length (filter is_sentiment_call post) = 1)
     \<and> (\<not> take_trade (sentiment_result env) \<longrightarrow> (\<forall>e \<in> set evs. \<not> is_alert e))"
proof (intro impI)
  assume a: "on_candle env st = (st', evs, err) \<and> TechnicalCall result \<in> set evs
     \<and> MIN_CONFIDENCE \<le> confidence result \<and> confidence result < HIGH_CONFIDENCE
     \<and> daily_x_searches st < MAX_X_SEARCHES_PER_DAY"
  define closes where "closes = map c_close (candles env)"
  define cp where "cp = last closes"
  from a obtain atr rs ss l st1 res st3 evs' where
    fl: "find_layers (map c_high (candles env)) (map c_low (candles env)) closes
           (Some (map c_volume (candles env))) (1 / 10) 4 = Inr (rs, ss)"
    and nl: "find_nearest_layer cp rs ss LAYER_THRESHOLD_PCT = Some l"
    and cc: "can_call_api (now env) st = (True, st1)"
    and res: "res = analyze_technical (technical_reply env) cp atr"
    and dl: "decision_logic (st1\<lparr>last_api_call := now env, daily_calls := daily_calls st1 + 1\<rparr>)
               cp res (sentiment_result env) = (st3, evs', err)"
    and evs: "evs = ApiLog ''technical'' # TechnicalCall res # evs'"
    unfolding on_candle_def Let_def closes_def cp_def
    by (auto split: if_splits sum.splits option.splits prod.splits bool.splits)
  from decision_logic_no_technical [OF dl] a evs have "result = res" by auto
  from find_nearest_layer_mem [OF nl] have "rs @ ss \<noteq> []" by auto
  from find_layers_price_nonzero [OF fl this] have cp0: "cp \<noteq> 0" by (simp add: cp_def)
  from cc have "st1 = roll_over (now env) st"
    by (auto simp: can_call_api_def Let_def split: if_splits)
  with a have x: "daily_x_searches st1 < MAX_X_SEARCHES_PER_DAY"
    by (auto simp: roll_over_def Let_def MAX_X_SEARCHES_PER_DAY_def)
  from decision_logic_borderline [OF cp0, of res
      "st1\<lparr>last_api_call := now env, daily_calls := daily_calls st1 + 1\<rparr>" "sentiment_result env"]
    a x \<open>result = res\<close> dl
  obtain size where e': "err = None"
    "evs' = [SizeComputed size, ApiLog ''x_search'', SentimentCall (sentiment_result env)] @
              (if take_trade (sentiment_result env)
               then [TradeLog (direction res) cp (tp res) (sl res) (confidence res),
                     BorderlineAlert (direction res) cp (tp res) (sl res) size]
               else [])"
    by auto
  have split: "evs = [ApiLog ''technical'', TechnicalCall res] @ SizeComputed size #
      ([ApiLog ''x_search'', SentimentCall (sentiment_result env)] @
              (if take_trade (sentiment_result env)
               then [TradeLog (direction res) cp (tp res) (sl res) (confidence res),
                     BorderlineAlert (direction res) cp (tp res) (sl res) size]
               else []))"
    using evs e' by simp
  have "\<exists>pre post size. evs = pre @ SizeComputed size # post
           \<and> (\<forall>e \<in> set pre. \<not> is_sentiment_call e)
           \<and> length (filter is_sentiment_call post) = 1"
    by (rule exI [where x = "[ApiLog ''technical'', TechnicalCall res]"], intro exI conjI, rule split)
       simp_all
  moreover have "length (filter is_sentiment_call evs) = 1" "length (filter is_size_computed evs) = 1"
    "\<not> take_trade (sentiment_result env) \<longrightarrow> (\<forall>e \<in> set evs. \<not> is_alert e)"
    using evs e' by simp_all
  ultimately show "err = None
     \<and> length (filter is_sentiment_call evs) = 1
     \<and> length (filter is_size_computed evs) = 1
     \<and> (\<exists>pre post size. evs = pre @ SizeComputed size # post
           \<and> (\<forall>e \<in> set pre. \<not> is_sentiment_call e)
           \<and> length (filter is_sentiment_call post) = 1)
     \<and> (\<not> take_trade (sentiment_result env) \<longrightarrow> (\<forall>e \<in> set evs. \<not> is_alert e))"
    using e'(1) by blast
qed

theorem borderline_cycle_witness:
  "on_candle (example_env\<lparr>sentiment_result := accepting\<rparr>) (init_state 1704452400) =
     (\<lparr>last_api_call = 1704456000, daily_calls = 1, daily_x_searches = 1, last_reset_day = 5\<rparr>,
      [ApiLog ''technical'', TechnicalCall borderline_reply, SizeComputed 200,
       ApiLog ''x_search'', SentimentCall accepting,
       TradeLog ''LONG'' 1 (1001 / 1000) (99 / 100) 65,
       BorderlineAlert ''LONG'' 1 (1001 / 1000) (99 / 100) 200],
      None)
   \<and> MIN_CONFIDENCE \<le> confidence borderline_reply
   \<and> confidence borderline_reply < HIGH_CONFIDENCE
   \<and> daily_x_searches (init_state 1704452400) < MAX_X_SEARCHES_PER_DAY
   \<and> length (filter is_sentiment_call
        [ApiLog ''technical'', TechnicalCall borderline_reply, SizeComputed 200,
         ApiLog ''x_search'', SentimentCall accepting,
         TradeLog ''LONG'' 1 (1001 / 1000) (99 / 100) 65,
         BorderlineAlert ''LONG'' 1 (1001 / 1000) (99 / 100) 200]) = 1"
proof -
  have run: "on_candle (example_env\<lparr>sentiment_result := accepting\<rparr>) (init_state 1704452400) =
     (\<lparr>last_api_call = 1704456000, daily_calls = 1, daily_x_searches = 1, last_reset_day = 5\<rparr>,
      [ApiLog ''technical'', TechnicalCall borderline_reply, SizeComputed 200,
       ApiLog ''x_search'', SentimentCall accepting,
       TradeLog ''LONG'' 1 (1001 / 1000) (99 / 100) 65,
       BorderlineAlert ''LONG'' 1 (1001 / 1000) (99 / 100) 200],
      None)"
    by code_simp
  have band: "MIN_CONFIDENCE \<le> confidence borderline_reply"
    "confidence borderline_reply < HIGH_CONFIDENCE"
    "daily_x_searches (init_state 1704452400) < MAX_X_SEARCHES_PER_DAY"
    by (simp_all add: MIN_CONFIDENCE_def HIGH_CONFIDENCE_def MAX_X_SEARCHES_PER_DAY_def
        borderline_reply_def init_state_def)
  from run band borderline_cycle [where env = "example_env\<lparr>sentiment_result := accepting\<rparr>"
      and st = "init_state 1704452400" and result = borderline_reply
      and st' = "\<lparr>last_api_call = 1704456000, daily_calls = 1, daily_x_searches = 1,
                   last_reset_day = 5\<rparr>"
      and evs = "[ApiLog ''technical'', TechnicalCall borderline_reply, SizeComputed 200,
       ApiLog ''x_search'', SentimentCall accepting,
       TradeLog ''LONG'' 1 (1001 / 1000) (99 / 100) 65,
       BorderlineAlert ''LONG'' 1 (1001 / 1000) (99 / 100) 200]" and err = None]
  show ?thesis by simp
qed

text \<open>
  C2 fails for the position size: in this cycle of confidence 65 the sentiment dict has
  \<open>take_trade = False\<close>, and the size 200 has been computed before the sentiment call.
\<close>

theorem borderline_cycle_computes_size_counterexample:
  "on_candle example_env (init_state 1704452400) =
     (\<lparr>last_api_call = 1704456000, daily_calls = 1, daily_x_searches = 1, last_reset_day = 5\<rparr>,
      [ApiLog ''technical'', TechnicalCall borderline_reply, SizeComputed 200,
       ApiLog ''x_search'', SentimentCall rejecting],
      None)
   \<and> \<not> take_trade rejecting
   \<and> is_size_computed (SizeComputed 200)"
  by code_simp

section \<open>Properties of the response parser\<close>

text \<open>
  When the loop over the lines ends without an exception, the direction is not SKIP and
  the parsed TP is zero, both TP and SL are replaced by the ATR bracket around the entry,
  whatever the parsed SL; when the parsed TP is not zero the dict is returned as parsed.
\<close>

lemma default_bracket_zero_tp:
  assumes "tp r = 0" and "direction r \<noteq> ''SKIP''"
  shows "default_bracket r entry atr =
           (if direction r = ''LONG'' then r\<lparr>tp := entry + atr, sl := entry - atr\<rparr>
            else r\<lparr>tp := entry - atr, sl := entry + atr\<rparr>)"
  using assms by (simp add: default_bracket_def)

lemma default_bracket_parsed_tp:
  assumes "tp r \<noteq> 0"
  shows "default_bracket r entry atr = r"
  using assms by (simp add: default_bracket_def)

lemma parse_scenario_zero_bracket:
  "parse_technical_response
     ''DIRECTION: LONG\<newline>CONFIDENCE: 85\<newline>TP: 0\<newline>SL: 0\<newline>REASON: bounce'' 1 (2 / 10000) =
   \<lparr>direction = ''LONG'', confidence = 85, tp = 10002 / 10000, sl = 9998 / 10000,
    reason = ''bounce''\<rparr>"
  by code_simp

lemma parse_malformed_number:
  "parse_technical_response ''DIRECTION: SHORT\<newline>TP: 1.2.3\<newline>SL: 1.01'' 1 (2 / 10000) =
   \<lparr>direction = ''SHORT'', confidence = 0, tp = 0, sl = 0,
    reason = ''Failed to parse response''\<rparr>"
  by code_simp

text \<open>
  C1. The reply below has the direction LONG, a parsed TP of 1.0002 and a parsed SL of
  zero; the dict returned for the entry 1.0 and the ATR 0.0002 keeps the zero SL, since
  the default bracket is applied only when the parsed TP is zero.
\<close>

theorem parse_keeps_zero_stop_loss:
  "parse_technical_response
     ''DIRECTION: LONG\<newline>CONFIDENCE: 85\<newline>TP: 1.0002\<newline>SL: 0\<newline>REASON: bounce'' 1 (2 / 10000) =
   \<lparr>direction = ''LONG'', confidence = 85, tp = 10002 / 10000, sl = 0, reason = ''bounce''\<rparr>"
  by code_simp

section \<open>Properties of the rate limit\<close>

text \<open>
  The counters are reset by \<open>can_call_api\<close> exactly when the day of the month of the clock
  differs from the stored one, which then becomes the clock's. So there is no reset at a
  check on the same UTC calendar day as the check (or start) that stored the day.
\<close>

lemma roll_over_reset:
  "utc_day t \<noteq> last_reset_day st \<Longrightarrow>
     roll_over t st = st\<lparr>daily_calls := 0, daily_x_searches := 0, last_reset_day := utc_day t\<rparr>"
  by (simp add: roll_over_def)

lemma roll_over_keep:
  "utc_day t = last_reset_day st \<Longrightarrow> roll_over t st = st"
  by (simp add: roll_over_def)

lemma roll_over_stores_day: "last_reset_day (roll_over t st) = utc_day t"
  by (simp add: roll_over_def Let_def)

lemma can_call_api_state: "snd (can_call_api t st) = roll_over t st"
  by (simp add: can_call_api_def Let_def)

lemma no_reset_within_day:
  assumes "last_reset_day st = utc_day t0" and "utc_date t = utc_date t0"
  shows "snd (can_call_api t st) = st"
  using assms by (simp add: can_call_api_state roll_over_def utc_day_def)

text \<open>
  C9. The bot has used its 500 calls and 100 searches on 2024-01-05 and next checks the
  rate limit on 2024-02-05 at 12:00:00 UTC: the UTC calendar day has changed, the day of
  the month is 5 on both days, and the check resets nothing and refuses the call.
\<close>

theorem no_reset_on_same_day_of_month:
  "utc_date 1704456000 = 19727 \<and> utc_date 1707134400 = 19758
   \<and> utc_day 1704456000 = 5 \<and> utc_day 1707134400 = 5
   \<and> can_call_api 1707134400
        \<lparr>last_api_call = 1704456000, daily_calls = 500, daily_x_searches = 100,
         last_reset_day = 5\<rparr> =
       (False,
        \<lparr>last_api_call = 1704456000, daily_calls = 500, daily_x_searches = 100,
         last_reset_day = 5\<rparr>)"
  by code_simp

end
